theory Spec2Isabelle
  imports Complex_Main
begin

section \<open>Values of the program\<close>

text \<open>
  The numbers the strategy compares are floating-point values held in a data frame.
  Only their comparison with \<open>>=\<close> matters to the program, and that comparison is exact:
  a finite value is a real number, the two infinities are below and above every finite
  value, and every comparison with NaN is false.
\<close>

datatype fval = Fin real | PInf | NInf | NaN

fun py_ge :: "fval \<Rightarrow> fval \<Rightarrow> bool" where
  "py_ge NaN b = False"
| "py_ge a NaN = False"
| "py_ge PInf b = True"
| "py_ge a NInf = True"
| "py_ge (Fin a) (Fin b) = (b \<le> a)"
| "py_ge (Fin a) PInf = False"
| "py_ge NInf b = False"

fun py_eq :: "fval \<Rightarrow> fval \<Rightarrow> bool" where
  "py_eq NaN b = False"
| "py_eq a NaN = False"
| "py_eq a b = (a = b)"

text \<open>
  Exceptions are values. Every constructor stands for an instance of a subclass of
  Python's \<open>Exception\<close>: the errors of indexing and of dictionary and column lookup,
  of conversion, of reading an unbound local, and whatever else a called library raises.
\<close>

datatype pyexn =
    KeyError string
  | IndexError string
  | ValueError string
  | UnboundLocalError string
  | LibraryError string

section \<open>Configuration (lines 20-54)\<close>

record strategy =
  rsi_buy_threshold :: fval
  use_ema_filter :: bool
  ema_period :: nat

definition strategy_config :: strategy where
  "strategy_config =
     \<lparr>rsi_buy_threshold = Fin 50, use_ema_filter = True, ema_period = 50\<rparr>"

section \<open>The exchange's answer and the candle frame\<close>

text \<open>
  \<open>get_kline\<close> answers with a dictionary. A field that is absent is \<open>None\<close>, and
  reading it raises \<open>KeyError\<close>. A bar of the answer is a list of strings.
\<close>

type_synonym raw_row = "string list"

record kline_response =
  retCode :: "int option"
  retMsg :: "string option"
  result_list :: "raw_row list option"

text \<open>
  A cell of the frame is a string of the answer, or \<open>None\<close> where the frame constructor
  filled up a row shorter than the widest one.
\<close>

type_synonym cell = "string option"

record candle =
  timestamp :: cell
  open_px :: cell
  high :: cell
  low :: cell
  close :: fval
  volume :: cell
  turnover :: cell

text \<open>
  Line 85, \<open>pd.DataFrame(klines, columns=[7 names])\<close>: an empty list gives an empty
  frame with the seven columns; otherwise the rows are filled up with \<open>None\<close> to the
  width of the widest one, and a width other than seven is a \<open>ValueError\<close>.
\<close>

definition widest :: "raw_row list \<Rightarrow> nat" where
  "widest klines = foldr max (map length klines) 0"

definition pad_row :: "nat \<Rightarrow> raw_row \<Rightarrow> cell list" where
  "pad_row k r = map Some r @ replicate (k - length r) None"

definition DataFrame :: "raw_row list \<Rightarrow> pyexn + cell list list" where
  "DataFrame klines =
     (if klines = [] then Inr []
      else if widest klines \<noteq> 7
        then Inl (ValueError ''7 columns passed, passed data had another number of columns'')
        else Inr (map (pad_row 7) klines))"

text \<open>
  Line 86, \<open>df['close'] = df['close'].astype(float)\<close>: the fifth column is converted
  cell by cell, from the top; the first cell that cannot be converted raises. The
  conversion of one cell is the library's (\<open>to_float\<close>). The other six columns stay
  as they came.
\<close>

fun astype_float_row :: "(cell \<Rightarrow> pyexn + fval) \<Rightarrow> cell list \<Rightarrow> pyexn + candle" where
  "astype_float_row to_float [ts, op, hi, lo, cl, vo, tu] =
     (case to_float cl of
        Inl e \<Rightarrow> Inl e
      | Inr x \<Rightarrow> Inr \<lparr>timestamp = ts, open_px = op, high = hi, low = lo, close = x,
                      volume = vo, turnover = tu\<rparr>)"
| "astype_float_row to_float r = Inl (KeyError ''close'')"

fun astype_float :: "(cell \<Rightarrow> pyexn + fval) \<Rightarrow> cell list list \<Rightarrow> pyexn + candle list" where
  "astype_float to_float [] = Inr []"
| "astype_float to_float (r # rs) =
     (case astype_float_row to_float r of
        Inl e \<Rightarrow> Inl e
      | Inr c \<Rightarrow> (case astype_float to_float rs of
                    Inl e \<Rightarrow> Inl e
                  | Inr cs \<Rightarrow> Inr (c # cs)))"

text \<open>
  Line 87, \<open>df.iloc[::-1].reset_index(drop=True)\<close>: the rows in reverse order
  (``Bybit returns data newest first, so we reverse it'').
\<close>

definition reverse_rows :: "candle list \<Rightarrow> candle list" where
  "reverse_rows df = rev df"

text \<open>Lines 84-87 together: the candle series of one cycle.\<close>

definition build_series :: "(cell \<Rightarrow> pyexn + fval) \<Rightarrow> raw_row list \<Rightarrow> pyexn + candle list" where
  "build_series to_float klines =
     (case DataFrame klines of
        Inl e \<Rightarrow> Inl e
      | Inr cells \<Rightarrow> (case astype_float to_float cells of
                       Inl e \<Rightarrow> Inl e
                     | Inr df \<Rightarrow> Inr (reverse_rows df)))"

text \<open>The candle that one bar of the answer becomes (lines 85-86), or the exception.\<close>

definition candle_of_row :: "(cell \<Rightarrow> pyexn + fval) \<Rightarrow> raw_row \<Rightarrow> pyexn + candle" where
  "candle_of_row to_float r = astype_float_row to_float (pad_row 7 r)"

text \<open>
  Reading a series by timestamp: \<open>key\<close> gives the instant a timestamp cell stands
  for. A series is strictly ascending when every bar is older than all bars after it,
  and strictly descending (newest first) when it is newer.
\<close>

definition ascending_by :: "(cell \<Rightarrow> 'k::order) \<Rightarrow> candle list \<Rightarrow> bool" where
  "ascending_by key df = sorted_wrt (\<lambda>a b. key (timestamp a) < key (timestamp b)) df"

definition raw_timestamp :: "raw_row \<Rightarrow> cell" where
  "raw_timestamp r = (case r of [] \<Rightarrow> None | t # rest \<Rightarrow> Some t)"

definition newest_first :: "(cell \<Rightarrow> 'k::order) \<Rightarrow> raw_row list \<Rightarrow> bool" where
  "newest_first key klines =
     sorted_wrt (\<lambda>a b. key (raw_timestamp b) < key (raw_timestamp a)) klines"

text \<open>The instant of a timestamp cell written in decimal digits (milliseconds).\<close>

definition digit_of :: "char \<Rightarrow> nat" where
  "digit_of c = of_char c - 48"

definition millis :: "cell \<Rightarrow> nat" where
  "millis c = (case c of None \<Rightarrow> 0 | Some s \<Rightarrow> foldl (\<lambda>n d. 10 * n + digit_of d) 0 s)"

section \<open>One evaluation cycle (lines 60-155)\<close>

text \<open>
  What the program prints, with the values a line cites, and the calls it makes to the
  exchange session and to the indicator library. \<open>Call_place_order\<close> is the order
  submission of the session.
\<close>

datatype msg =
    Running_trading_logic
  | Error_fetching_kline string
  | Latest_data fval fval
  | EMA_value fval
  | RSI_not_below fval fval
  | Price_not_below_EMA fval fval
  | All_conditions_met
  | Simulation_order
  | Conditions_not_met
  | Unexpected_error pyexn
  | Bot_started
  | Trading_attempted_at string

datatype event =
    Print msg
  | Call_HTTP
  | Call_get_kline
  | Call_rsi "fval list"
  | Call_ema nat "fval list"
  | Call_place_order

text \<open>
  Everything outside the source file is a parameter of a cycle: whether the session
  constructor raises, what \<open>get_kline\<close> answers or raises, how a cell converts to a
  float, and what the indicator routines do with the close column. An indicator routine
  raises, or appends nothing (\<open>None\<close>), or appends a column.
\<close>

record world =
  HTTP_session :: "pyexn option"
  get_kline :: "pyexn + kline_response"
  to_float :: "cell \<Rightarrow> pyexn + fval"
  ta_rsi :: "fval list \<Rightarrow> pyexn + fval list option"
  ta_ema :: "nat \<Rightarrow> fval list \<Rightarrow> pyexn + fval list option"

record frame =
  rows :: "candle list"
  RSI_14 :: "fval list option"
  EMA_col :: "fval list option"

record snapshot =
  latest_close :: fval
  latest_rsi :: fval
  latest_ema :: "fval option"

text \<open>
  A step of the cycle gives the events it produced and either the exception it raised
  or its value. \<open>then_do\<close> runs a second step after a first one that did not raise.
\<close>

type_synonym 'a step = "event list \<times> (pyexn + 'a)"

definition then_do :: "'a step \<Rightarrow> ('a \<Rightarrow> 'b step) \<Rightarrow> 'b step" where
  "then_do m f =
     (case m of
        (tr, Inl e) \<Rightarrow> (tr, Inl e)
      | (tr, Inr x) \<Rightarrow> (case f x of (tr', r) \<Rightarrow> (tr @ tr', r)))"

text \<open>
  Lines 70-84. \<open>Inr None\<close> is the early return of line 80, after the error line has
  been printed; \<open>Inr (Some klines)\<close> goes on with the bars.
\<close>

definition fetch_klines :: "world \<Rightarrow> raw_row list option step" where
  "fetch_klines w =
     (case get_kline w of
        Inl e \<Rightarrow> ([Call_get_kline], Inl e)
      | Inr resp \<Rightarrow>
          (case retCode resp of
             None \<Rightarrow> ([Call_get_kline], Inl (KeyError ''retCode''))
           | Some c \<Rightarrow>
               if c \<noteq> 0 then
                 (case retMsg resp of
                    None \<Rightarrow> ([Call_get_kline], Inl (KeyError ''retMsg''))
                  | Some m \<Rightarrow> ([Call_get_kline, Print (Error_fetching_kline m)], Inr None))
               else
                 (case result_list resp of
                    None \<Rightarrow> ([Call_get_kline], Inl (KeyError ''list''))
                  | Some klines \<Rightarrow> ([Call_get_kline], Inr (Some klines)))))"

text \<open>
  Lines 91-93. The routines read the close column. A column they append is aligned with
  the frame's index: cut to the frame's length, or filled up with NaN.
\<close>

definition append_column :: "nat \<Rightarrow> fval list \<Rightarrow> fval list" where
  "append_column n col = take n col @ replicate (n - length col) NaN"

definition compute_indicators :: "strategy \<Rightarrow> world \<Rightarrow> candle list \<Rightarrow> frame step" where
  "compute_indicators cfg w df =
     (let closes = map close df; n = length df in
      case ta_rsi w closes of
        Inl e \<Rightarrow> ([Call_rsi closes], Inl e)
      | Inr r \<Rightarrow>
          if use_ema_filter cfg then
            (case ta_ema w (ema_period cfg) closes of
               Inl e \<Rightarrow> ([Call_rsi closes, Call_ema (ema_period cfg) closes], Inl e)
             | Inr m \<Rightarrow>
                 ([Call_rsi closes, Call_ema (ema_period cfg) closes],
                  Inr \<lparr>rows = df, RSI_14 = map_option (append_column n) r,
                       EMA_col = map_option (append_column n) m\<rparr>))
          else
            ([Call_rsi closes],
             Inr \<lparr>rows = df, RSI_14 = map_option (append_column n) r, EMA_col = None\<rparr>))"

text \<open>Lines 97-104: the last value of each column.\<close>

definition iloc_last :: "'a list \<Rightarrow> pyexn + 'a" where
  "iloc_last xs =
     (if xs = [] then Inl (IndexError ''single positional indexer is out-of-bounds'')
      else Inr (last xs))"

text \<open>The decimal digits of a number, as in the column name \<open>EMA_50\<close> of line 103.\<close>

fun decimal :: "nat \<Rightarrow> string" where
  "decimal n =
     (if n < 10 then [char_of (48 + n)]
      else decimal (n div 10) @ [char_of (48 + n mod 10)])"

declare decimal.simps [simp del]

definition column :: "string \<Rightarrow> 'a list option \<Rightarrow> pyexn + 'a list" where
  "column name c = (case c of None \<Rightarrow> Inl (KeyError name) | Some col \<Rightarrow> Inr col)"

definition latest_values :: "strategy \<Rightarrow> frame \<Rightarrow> snapshot step" where
  "latest_values cfg fr =
     (case iloc_last (map close (rows fr)) of
        Inl e \<Rightarrow> ([], Inl e)
      | Inr c \<Rightarrow>
     (case column ''RSI_14'' (RSI_14 fr) of
        Inl e \<Rightarrow> ([], Inl e)
      | Inr rcol \<Rightarrow>
     (case iloc_last rcol of
        Inl e \<Rightarrow> ([], Inl e)
      | Inr r \<Rightarrow>
          if use_ema_filter cfg then
            (case column (''EMA_'' @ decimal (ema_period cfg)) (EMA_col fr) of
               Inl e \<Rightarrow> ([Print (Latest_data c r)], Inl e)
             | Inr ecol \<Rightarrow>
            (case iloc_last ecol of
               Inl e \<Rightarrow> ([Print (Latest_data c r)], Inl e)
             | Inr em \<Rightarrow>
                 ([Print (Latest_data c r), Print (EMA_value em)],
                  Inr \<lparr>latest_close = c, latest_rsi = r, latest_ema = Some em\<rparr>)))
          else
            ([Print (Latest_data c r)],
             Inr \<lparr>latest_close = c, latest_rsi = r, latest_ema = None\<rparr>))))"

text \<open>
  Lines 69-104: the steps up to the latest values. \<open>Inr None\<close> is the early return
  of line 80.
\<close>

definition read_snapshot :: "strategy \<Rightarrow> world \<Rightarrow> snapshot option step" where
  "read_snapshot cfg w =
     then_do (fetch_klines w) (\<lambda>ks.
       case ks of
         None \<Rightarrow> ([], Inr None)
       | Some klines \<Rightarrow>
           then_do ([], build_series (to_float w) klines) (\<lambda>df.
           then_do (compute_indicators cfg w df) (\<lambda>fr.
           then_do (latest_values cfg fr) (\<lambda>s. ([], Inr (Some s))))))"

text \<open>
  Lines 107-119: the rules. Both are evaluated; each unmet one prints its line and
  clears the flag. \<open>latest_ema\<close> is bound only when the filter is on (line 102), and is
  read only then (line 117).
\<close>

definition evaluate_rules :: "strategy \<Rightarrow> snapshot \<Rightarrow> bool step" where
  "evaluate_rules cfg s =
     (case (if py_ge (latest_rsi s) (rsi_buy_threshold cfg)
            then ([Print (RSI_not_below (latest_rsi s) (rsi_buy_threshold cfg))], False)
            else ([], True)) of
        (out1, met1) \<Rightarrow>
          if use_ema_filter cfg then
            (case latest_ema s of
               None \<Rightarrow> (out1, Inl (UnboundLocalError ''latest_ema''))
             | Some em \<Rightarrow>
                 if py_ge (latest_close s) em
                 then (out1 @ [Print (Price_not_below_EMA (latest_close s) em)], Inr False)
                 else (out1, Inr met1))
          else (out1, Inr met1))"

text \<open>
  Lines 123-151: the action. The order submission is commented out in the source; what
  remains is the simulation line.
\<close>

definition act :: "bool \<Rightarrow> event list" where
  "act buy_conditions_met =
     (if buy_conditions_met then [Print All_conditions_met, Print Simulation_order]
      else [Print Conditions_not_met])"

definition try_body :: "strategy \<Rightarrow> world \<Rightarrow> unit step" where
  "try_body cfg w =
     then_do (read_snapshot cfg w) (\<lambda>so.
       case so of
         None \<Rightarrow> ([], Inr ())
       | Some s \<Rightarrow> then_do (evaluate_rules cfg s) (\<lambda>met. (act met, Inr ())))"

text \<open>
  The whole function. The session is constructed before the \<open>try\<close> (line 65), so an
  exception of the constructor leaves the function; one of the body is printed by the
  handler of line 154 and the function returns. The second component is the exception
  that leaves the function, if any.
\<close>

definition execute_trade_logic :: "strategy \<Rightarrow> world \<Rightarrow> event list \<times> pyexn option" where
  "execute_trade_logic cfg w =
     (case HTTP_session w of
        Some e \<Rightarrow> ([Print Running_trading_logic, Call_HTTP], Some e)
      | None \<Rightarrow>
          (case try_body cfg w of
             (tr, Inl e) \<Rightarrow>
               ([Print Running_trading_logic, Call_HTTP] @ tr @ [Print (Unexpected_error e)],
                None)
           | (tr, Inr u) \<Rightarrow> ([Print Running_trading_logic, Call_HTTP] @ tr, None)))"

section \<open>The scheduler (lines 161-179)\<close>

text \<open>
  The loop polls the scheduling library once a second, for ever. A finite run of it is
  a list of polls: \<open>None\<close> when the job is not due, \<open>Some w\<close> when it is due and runs
  in the world \<open>w\<close>. The library calls the job and lets its exception through. The
  result is the events so far and the exception that ended the process, if any;
  \<open>None\<close> after the last poll of the list means the loop is still running.
\<close>

fun scheduler_loop :: "strategy \<Rightarrow> world option list \<Rightarrow> event list \<times> pyexn option" where
  "scheduler_loop cfg [] = ([], None)"
| "scheduler_loop cfg (None # polls) = scheduler_loop cfg polls"
| "scheduler_loop cfg (Some w # polls) =
     (case execute_trade_logic cfg w of
        (tr, Some e) \<Rightarrow> (tr, Some e)
      | (tr, None) \<Rightarrow> (case scheduler_loop cfg polls of (tr', r) \<Rightarrow> (tr @ tr', r)))"

definition main :: "strategy \<Rightarrow> world \<Rightarrow> world option list \<Rightarrow> event list \<times> pyexn option" where
  "main cfg w0 polls =
     (case execute_trade_logic cfg w0 of
        (tr, Some e) \<Rightarrow>
          ([Print Bot_started, Print (Trading_attempted_at ''01:00'')] @ tr, Some e)
      | (tr, None) \<Rightarrow>
          (case scheduler_loop cfg polls of
             (tr', r) \<Rightarrow>
               ([Print Bot_started, Print (Trading_attempted_at ''01:00'')] @ tr @ tr', r)))"

section \<open>Reading a run\<close>

text \<open>The number of cycles a run has started: each one prints its first line once.\<close>

definition cycles_started :: "event list \<Rightarrow> nat" where
  "cycles_started tr = length (filter (\<lambda>ev. ev = Print Running_trading_logic) tr)"

text \<open>The worlds of the polls at which the job was due, in order.\<close>

fun due_worlds :: "world option list \<Rightarrow> world list" where
  "due_worlds [] = []"
| "due_worlds (None # polls) = due_worlds polls"
| "due_worlds (Some w # polls) = w # due_worlds polls"

text \<open>The number of polls at which the job was due.\<close>

definition triggers :: "world option list \<Rightarrow> nat" where
  "triggers polls = length (filter (\<lambda>p. p \<noteq> None) polls)"

text \<open>The decision a run shows: the lines of the unmet rules, in order, and of the action.\<close>

fun is_decision :: "event \<Rightarrow> bool" where
  "is_decision (Print (RSI_not_below r t)) = True"
| "is_decision (Print (Price_not_below_EMA c em)) = True"
| "is_decision (Print All_conditions_met) = True"
| "is_decision (Print Simulation_order) = True"
| "is_decision (Print Conditions_not_met) = True"
| "is_decision ev = False"

definition decision_events :: "event list \<Rightarrow> event list" where
  "decision_events tr = filter is_decision tr"

text \<open>The events of the steps up to the latest values (lines 69-104).\<close>

fun is_snapshot_event :: "event \<Rightarrow> bool" where
  "is_snapshot_event Call_get_kline = True"
| "is_snapshot_event (Call_rsi closes) = True"
| "is_snapshot_event (Call_ema p closes) = True"
| "is_snapshot_event (Print (Error_fetching_kline m)) = True"
| "is_snapshot_event (Print (Latest_data c r)) = True"
| "is_snapshot_event (Print (EMA_value em)) = True"
| "is_snapshot_event ev = False"

section \<open>Sample inputs\<close>

text \<open>
  A conversion that reads a string of decimal digits as its value and an absent cell as
  NaN, and refuses every other string.
\<close>

definition is_digit :: "char \<Rightarrow> bool" where
  "is_digit c = (48 \<le> (of_char c :: nat) \<and> (of_char c :: nat) \<le> 57)"

definition demo_to_float :: "cell \<Rightarrow> pyexn + fval" where
  "demo_to_float c =
     (case c of
        None \<Rightarrow> Inr NaN
      | Some s \<Rightarrow>
          if s \<noteq> [] \<and> list_all is_digit s
          then Inr (Fin (real (millis (Some s))))
          else Inl (ValueError ''could not convert string to float''))"

text \<open>A bar with the given timestamp and close, and 1 in the other five fields.\<close>

definition bar :: "string \<Rightarrow> string \<Rightarrow> raw_row" where
  "bar ts cl = [ts, ''1'', ''1'', ''1'', cl, ''1'', ''1'']"

definition bar_candle :: "string \<Rightarrow> real \<Rightarrow> candle" where
  "bar_candle ts cl =
     \<lparr>timestamp = Some ts, open_px = Some ''1'', high = Some ''1'', low = Some ''1'',
      close = Fin cl, volume = Some ''1'', turnover = Some ''1''\<rparr>"

text \<open>Three bars, newest first; and three bars in no order.\<close>

definition klines_newest_first :: "raw_row list" where
  "klines_newest_first = [bar ''3'' ''30'', bar ''2'' ''20'', bar ''1'' ''10'']"

definition klines_unordered :: "raw_row list" where
  "klines_unordered = [bar ''1'' ''10'', bar ''3'' ''30'', bar ''2'' ''20'']"

text \<open>
  Indicator routines that append nothing for an empty close column and a constant column
  otherwise; an answer of the exchange with the given bars; and the cycles' worlds made
  of them.
\<close>

definition demo_rsi :: "fval list \<Rightarrow> pyexn + fval list option" where
  "demo_rsi closes = (if closes = [] then Inr None else Inr (Some (map (\<lambda>c. Fin 40) closes)))"

definition demo_ema :: "nat \<Rightarrow> fval list \<Rightarrow> pyexn + fval list option" where
  "demo_ema p closes = (if closes = [] then Inr None else Inr (Some (map (\<lambda>c. Fin 35) closes)))"

definition answer :: "raw_row list \<Rightarrow> kline_response" where
  "answer klines = \<lparr>retCode = Some 0, retMsg = Some ''OK'', result_list = Some klines\<rparr>"

definition world_of :: "pyexn + kline_response \<Rightarrow> world" where
  "world_of r =
     \<lparr>HTTP_session = None, get_kline = r, to_float = demo_to_float,
      ta_rsi = demo_rsi, ta_ema = demo_ema\<rparr>"

definition world_ok :: world where
  "world_ok = world_of (Inr (answer klines_newest_first))"

definition world_one_bar :: world where
  "world_one_bar = world_of (Inr (answer [bar ''9'' ''30'']))"

definition world_empty :: world where
  "world_empty = world_of (Inr (answer []))"

definition world_fetch_fails :: world where
  "world_fetch_fails = world_of (Inl (LibraryError ''connection timed out''))"

definition world_bad_close :: world where
  "world_bad_close = world_of (Inr (answer [bar ''2'' ''n/a'', bar ''1'' ''10'']))"

definition world_rsi_fails :: world where
  "world_rsi_fails =
     (world_of (Inr (answer klines_newest_first)))
       \<lparr>ta_rsi := (\<lambda>closes. Inl (LibraryError ''indicator failed''))\<rparr>"

section \<open>The candle series\<close>

lemma astype_float_row_timestamp:
  "astype_float_row tf r = Inr c \<Longrightarrow> timestamp c = (case r of [] \<Rightarrow> None | t # rest \<Rightarrow> t)"
  by (induction tf r rule: astype_float_row.induct) (auto split: sum.splits)

lemma astype_float_timestamps:
  "astype_float tf cells = Inr df \<Longrightarrow>
   map timestamp df = map (\<lambda>r. case r of [] \<Rightarrow> None | t # rest \<Rightarrow> t) cells"
  by (induction cells arbitrary: df)
     (auto split: sum.splits dest: astype_float_row_timestamp)

lemma pad_row_first:
  "(case pad_row 7 r of [] \<Rightarrow> None | t # rest \<Rightarrow> t) = raw_timestamp r"
  by (cases r) (simp_all add: pad_row_def raw_timestamp_def eval_nat_numeral)

lemma build_series_timestamps:
  "build_series tf klines = Inr df \<Longrightarrow> map timestamp df = rev (map raw_timestamp klines)"
  by (auto simp: build_series_def DataFrame_def reverse_rows_def rev_map[symmetric]
        pad_row_first o_def
      split: sum.splits if_splits dest!: astype_float_timestamps)

lemma build_series_length:
  "build_series tf klines = Inr df \<Longrightarrow> length df = length klines"
  using build_series_timestamps [of tf klines df]
  by (metis length_map length_rev)

lemma astype_float_rows:
  "astype_float tf cells = Inr df \<Longrightarrow> map Inr df = map (astype_float_row tf) cells"
  by (induction cells arbitrary: df) (auto split: sum.splits)

lemma build_series_cases:
  "build_series tf klines = Inr df \<Longrightarrow>
   \<exists>df0. astype_float tf (map (pad_row 7) klines) = Inr df0 \<and> df = rev df0"
  by (auto simp: build_series_def DataFrame_def reverse_rows_def
      split: sum.splits if_splits)

lemma build_series_rows:
  assumes "build_series tf klines = Inr df"
  shows "map Inr df = rev (map (candle_of_row tf) klines)"
proof -
  obtain df0 where a: "astype_float tf (map (pad_row 7) klines) = Inr df0" and r: "df = rev df0"
    using build_series_cases [OF assms] by blast
  have "map Inr df0 = map (astype_float_row tf) (map (pad_row 7) klines)"
    using a by (rule astype_float_rows)
  also have "\<dots> = map (candle_of_row tf) klines"
    by (simp add: candle_of_row_def o_def)
  finally have "map Inr df0 = map (candle_of_row tf) klines" .
  then have "rev (map Inr df0) = rev (map (candle_of_row tf) klines)" by simp
  then show ?thesis by (simp add: r rev_map)
qed

text \<open>
  C6, as stated, fails. The bars with timestamps 1, 3, 2 (in this order) make a series
  with timestamps 2, 3, 1: the rows are reversed, not sorted.
\<close>

theorem series_not_sorted_counterexample:
  "build_series demo_to_float klines_unordered =
     Inr [bar_candle ''2'' 20, bar_candle ''3'' 30, bar_candle ''1'' 10]
   \<and> \<not> ascending_by millis [bar_candle ''2'' 20, bar_candle ''3'' 30, bar_candle ''1'' 10]"
  by (simp add: build_series_def DataFrame_def klines_unordered_def bar_def widest_def
        pad_row_def demo_to_float_def is_digit_def millis_def digit_of_def reverse_rows_def
        bar_candle_def ascending_by_def)

text \<open>
  C6, amended. The series is the raw sequence in reverse order, bar for bar: its candles
  are the candles of the bars (all seven fields), last bar first. So for every raw
  sequence that is supplied newest first (strictly descending by timestamp), the series
  is strictly ascending by timestamp, oldest bar first.
\<close>

theorem series_reversed_ascending:
  assumes "build_series tf klines = Inr df"
  shows "map Inr df = rev (map (candle_of_row tf) klines)
         \<and> map timestamp df = rev (map raw_timestamp klines)
         \<and> (newest_first key klines \<longrightarrow> ascending_by key df)"
proof -
  have bars: "map Inr df = rev (map (candle_of_row tf) klines)"
    using assms by (rule build_series_rows)
  have ts: "map timestamp df = rev (map raw_timestamp klines)"
    using assms by (rule build_series_timestamps)
  have "ascending_by key df" if "newest_first key klines"
  proof -
    have "sorted_wrt (\<lambda>a b. key a < key b) (map timestamp df)"
      using that unfolding ts newest_first_def by (simp add: sorted_wrt_rev sorted_wrt_map)
    then have "sorted_wrt (\<lambda>a b. key (timestamp a) < key (timestamp b)) df"
      by (simp only: sorted_wrt_map)
    then show ?thesis by (simp add: ascending_by_def)
  qed
  with bars ts show ?thesis by simp
qed

theorem series_reversed_ascending_witness:
  "build_series demo_to_float klines_newest_first =
     Inr [bar_candle ''1'' 10, bar_candle ''2'' 20, bar_candle ''3'' 30]
   \<and> newest_first millis klines_newest_first
   \<and> ascending_by millis [bar_candle ''1'' 10, bar_candle ''2'' 20, bar_candle ''3'' 30]"
proof -
  have b: "build_series demo_to_float klines_newest_first =
             Inr [bar_candle ''1'' 10, bar_candle ''2'' 20, bar_candle ''3'' 30]"
    by (simp add: build_series_def DataFrame_def klines_newest_first_def bar_def widest_def
          pad_row_def demo_to_float_def is_digit_def millis_def digit_of_def reverse_rows_def
          bar_candle_def)
  have n: "newest_first millis klines_newest_first"
    by (simp add: newest_first_def klines_newest_first_def bar_def raw_timestamp_def
          millis_def digit_of_def)
  have "ascending_by millis [bar_candle ''1'' 10, bar_candle ''2'' 20, bar_candle ''3'' 30]"
    using series_reversed_ascending [OF b, of millis, THEN conjunct2, THEN conjunct2] n
    by (rule mp)
  with b n show ?thesis by (intro conjI)
qed

section \<open>The rules\<close>

lemma py_eq_imp_py_ge: "py_eq a b \<Longrightarrow> py_ge a b"
  by (cases a; cases b) simp_all

text \<open>
  C2. The comparisons are strict on the buy side. When the latest RSI equals the
  threshold, the RSI line is printed and the flag is not true (it is false whenever the
  evaluation finishes, that is whenever the EMA is bound if the filter is on). When the
  filter is on and the latest close equals the latest EMA, the price-versus-EMA line is
  printed and the flag is false.
\<close>

theorem evaluate_rules_boundary:
  "(py_eq (latest_rsi s) (rsi_buy_threshold cfg) \<longrightarrow>
      Print (RSI_not_below (latest_rsi s) (rsi_buy_threshold cfg))
        \<in> set (fst (evaluate_rules cfg s))
      \<and> snd (evaluate_rules cfg s) \<noteq> Inr True
      \<and> ((use_ema_filter cfg \<longrightarrow> latest_ema s \<noteq> None) \<longrightarrow>
           snd (evaluate_rules cfg s) = Inr False))
   \<and> (use_ema_filter cfg \<and> latest_ema s = Some em \<and> py_eq (latest_close s) em \<longrightarrow>
      Print (Price_not_below_EMA (latest_close s) em) \<in> set (fst (evaluate_rules cfg s))
      \<and> snd (evaluate_rules cfg s) = Inr False)"
proof (intro conjI impI)
  assume "py_eq (latest_rsi s) (rsi_buy_threshold cfg)"
  then have ge: "py_ge (latest_rsi s) (rsi_buy_threshold cfg)"
    by (rule py_eq_imp_py_ge)
  show "Print (RSI_not_below (latest_rsi s) (rsi_buy_threshold cfg))
          \<in> set (fst (evaluate_rules cfg s))"
    using ge by (simp add: evaluate_rules_def split: option.splits)
  show "snd (evaluate_rules cfg s) \<noteq> Inr True"
    using ge by (simp add: evaluate_rules_def split: option.splits)
  show "snd (evaluate_rules cfg s) = Inr False"
    if "use_ema_filter cfg \<longrightarrow> latest_ema s \<noteq> None"
    using ge that by (auto simp: evaluate_rules_def split: option.splits)
next
  assume a: "use_ema_filter cfg \<and> latest_ema s = Some em \<and> py_eq (latest_close s) em"
  then have ge: "py_ge (latest_close s) em"
    by (simp add: py_eq_imp_py_ge)
  show "Print (Price_not_below_EMA (latest_close s) em) \<in> set (fst (evaluate_rules cfg s))"
    using a ge by (simp add: evaluate_rules_def)
  show "snd (evaluate_rules cfg s) = Inr False"
    using a ge by (simp add: evaluate_rules_def)
qed

theorem evaluate_rules_boundary_witness:
  "py_eq (Fin 50) (rsi_buy_threshold strategy_config)
   \<and> use_ema_filter strategy_config
   \<and> py_eq (Fin 100) (Fin 100)
   \<and> evaluate_rules strategy_config
         \<lparr>latest_close = Fin 100, latest_rsi = Fin 50, latest_ema = Some (Fin 100)\<rparr>
       = ([Print (RSI_not_below (Fin 50) (Fin 50)),
           Print (Price_not_below_EMA (Fin 100) (Fin 100))], Inr False)"
  using evaluate_rules_boundary
    [of "\<lparr>latest_close = Fin 100, latest_rsi = Fin 50, latest_ema = Some (Fin 100)\<rparr>"
        strategy_config "Fin 100"]
  by (simp add: strategy_config_def evaluate_rules_def)

section \<open>Steps, cycles and runs\<close>

lemma fst_then_do: "fst (then_do m f) = fst m @ (case snd m of Inl e \<Rightarrow> [] | Inr x \<Rightarrow> fst (f x))"
  by (cases m) (auto simp: then_do_def split: sum.splits prod.splits)

lemma snd_then_do: "snd (then_do m f) = (case snd m of Inl e \<Rightarrow> Inl e | Inr x \<Rightarrow> snd (f x))"
  by (cases m) (auto simp: then_do_def split: sum.splits prod.splits)

lemma fetch_klines_events: "list_all is_snapshot_event (fst (fetch_klines w))"
  by (simp add: fetch_klines_def split: sum.splits option.splits)

lemma compute_indicators_events: "list_all is_snapshot_event (fst (compute_indicators cfg w df))"
  by (simp add: compute_indicators_def Let_def split: sum.splits)

lemma latest_values_events: "list_all is_snapshot_event (fst (latest_values cfg fr))"
  by (simp add: latest_values_def split: sum.splits)

lemma read_snapshot_events: "list_all is_snapshot_event (fst (read_snapshot cfg w))"
  by (simp add: read_snapshot_def fst_then_do snd_then_do fetch_klines_events
      compute_indicators_events latest_values_events split: sum.splits option.splits)

lemma evaluate_rules_events: "list_all is_decision (fst (evaluate_rules cfg s))"
  by (simp add: evaluate_rules_def split: option.splits)

lemma act_events: "list_all is_decision (act b)"
  by (simp add: act_def)

lemma snapshot_event_not_start:
  "list_all is_snapshot_event tr \<Longrightarrow> cycles_started tr = 0 \<and> Call_place_order \<notin> set tr \<and> decision_events tr = []"
  by (induction tr) (auto simp: cycles_started_def decision_events_def elim: is_snapshot_event.elims)

lemma decision_not_start:
  "list_all is_decision tr \<Longrightarrow> cycles_started tr = 0 \<and> Call_place_order \<notin> set tr \<and> decision_events tr = tr"
  by (induction tr) (auto simp: cycles_started_def decision_events_def elim: is_decision.elims)

lemma cycles_started_Nil: "cycles_started [] = 0"
  by (simp add: cycles_started_def)

lemma cycles_started_append: "cycles_started (a @ b) = cycles_started a + cycles_started b"
  by (simp add: cycles_started_def)

lemma decision_events_append: "decision_events (a @ b) = decision_events a @ decision_events b"
  by (simp add: decision_events_def)

lemma fst_try_body:
  "fst (try_body cfg w) = fst (read_snapshot cfg w) @
     (case snd (read_snapshot cfg w) of
        Inr (Some s) \<Rightarrow> fst (evaluate_rules cfg s) @
           (case snd (evaluate_rules cfg s) of Inr met \<Rightarrow> act met | Inl e \<Rightarrow> [])
      | other \<Rightarrow> [])"
  by (simp add: try_body_def fst_then_do snd_then_do split: sum.splits option.splits)

lemma snd_try_body:
  "snd (try_body cfg w) =
     (case snd (read_snapshot cfg w) of
        Inl e \<Rightarrow> Inl e
      | Inr None \<Rightarrow> Inr ()
      | Inr (Some s) \<Rightarrow> (case snd (evaluate_rules cfg s) of Inl e \<Rightarrow> Inl e | Inr met \<Rightarrow> Inr ()))"
  by (simp add: try_body_def fst_then_do snd_then_do split: sum.splits option.splits)

lemma try_body_quiet:
  "cycles_started (fst (try_body cfg w)) = 0 \<and> Call_place_order \<notin> set (fst (try_body cfg w))"
  using snapshot_event_not_start [OF read_snapshot_events, of cfg w]
    decision_not_start [OF evaluate_rules_events] decision_not_start [OF act_events]
  by (auto simp: fst_try_body cycles_started_append cycles_started_Nil
      split: sum.splits option.splits)

lemma fst_execute_trade_logic:
  "HTTP_session w = None \<Longrightarrow>
   fst (execute_trade_logic cfg w) =
     [Print Running_trading_logic, Call_HTTP] @ fst (try_body cfg w) @
       (case snd (try_body cfg w) of Inl e \<Rightarrow> [Print (Unexpected_error e)] | Inr u \<Rightarrow> [])"
  by (cases "try_body cfg w") (auto simp: execute_trade_logic_def split: sum.splits)

lemma snd_execute_trade_logic:
  "HTTP_session w = None \<Longrightarrow> snd (execute_trade_logic cfg w) = None"
  by (cases "try_body cfg w") (auto simp: execute_trade_logic_def split: sum.splits)

lemma execute_trade_logic_quiet:
  "cycles_started (fst (execute_trade_logic cfg w)) = 1
   \<and> Call_place_order \<notin> set (fst (execute_trade_logic cfg w))"
proof (cases "HTTP_session w")
  case None
  then show ?thesis
    using try_body_quiet [of cfg w]
    by (auto simp: fst_execute_trade_logic cycles_started_append split: sum.splits)
       (simp_all add: cycles_started_def)
next
  case (Some e)
  then show ?thesis by (simp add: execute_trade_logic_def cycles_started_def)
qed

lemma scheduler_loop_quiet:
  "Call_place_order \<notin> set (fst (scheduler_loop cfg polls))"
proof (induction cfg polls rule: scheduler_loop.induct)
  case (3 cfg w polls)
  then show ?case
    using execute_trade_logic_quiet [of cfg w]
    by (cases "execute_trade_logic cfg w"; cases "scheduler_loop cfg polls")
       (auto split: option.splits)
qed simp_all

lemma scheduler_loop_runs:
  "(\<forall>w. Some w \<in> set polls \<longrightarrow> HTTP_session w = None) \<Longrightarrow>
   snd (scheduler_loop cfg polls) = None
   \<and> cycles_started (fst (scheduler_loop cfg polls)) = triggers polls"
proof (induction cfg polls rule: scheduler_loop.induct)
  case (1 cfg)
  then show ?case by (simp add: cycles_started_def triggers_def)
next
  case (2 cfg polls)
  then show ?case by (simp add: triggers_def)
next
  case (3 cfg w polls)
  have h: "HTTP_session w = None" using 3(2) by simp
  obtain tr where e: "execute_trade_logic cfg w = (tr, None)"
    using snd_execute_trade_logic [OF h, of cfg] by (cases "execute_trade_logic cfg w") simp
  have c: "cycles_started tr = 1"
    using execute_trade_logic_quiet [of cfg w] e by simp
  have ih: "snd (scheduler_loop cfg polls) = None
     \<and> cycles_started (fst (scheduler_loop cfg polls)) = triggers polls"
    using 3(1) [OF e [symmetric] refl] 3(2) by simp
  show ?case
    using e c ih by (cases "scheduler_loop cfg polls")
      (simp add: cycles_started_append triggers_def)
qed

lemma scheduler_loop_trace:
  "(\<forall>w. Some w \<in> set polls \<longrightarrow> HTTP_session w = None) \<Longrightarrow>
   fst (scheduler_loop cfg polls)
     = concat (map (\<lambda>w. fst (execute_trade_logic cfg w)) (due_worlds polls))"
proof (induction cfg polls rule: scheduler_loop.induct)
  case (3 cfg w polls)
  have h: "HTTP_session w = None" using 3(2) by simp
  obtain tr where e: "execute_trade_logic cfg w = (tr, None)"
    using snd_execute_trade_logic [OF h, of cfg] by (cases "execute_trade_logic cfg w") simp
  have ih: "fst (scheduler_loop cfg polls)
     = concat (map (\<lambda>w. fst (execute_trade_logic cfg w)) (due_worlds polls))"
    using 3(1) [OF e [symmetric] refl] 3(2) by simp
  show ?case
    using e ih by (cases "scheduler_loop cfg polls") simp
qed simp_all


lemma main_runs:
  "snd (execute_trade_logic cfg w0) = None \<Longrightarrow>
   fst (main cfg w0 polls)
     = [Print Bot_started, Print (Trading_attempted_at ''01:00'')]
         @ fst (execute_trade_logic cfg w0) @ fst (scheduler_loop cfg polls)
   \<and> snd (main cfg w0 polls) = snd (scheduler_loop cfg polls)"
  by (cases "execute_trade_logic cfg w0"; cases "scheduler_loop cfg polls")
     (simp add: main_def)

lemma main_stops:
  "snd (execute_trade_logic cfg w0) = Some e \<Longrightarrow>
   fst (main cfg w0 polls)
     = [Print Bot_started, Print (Trading_attempted_at ''01:00'')]
         @ fst (execute_trade_logic cfg w0)"
  by (cases "execute_trade_logic cfg w0") (simp add: main_def)

lemma snd_read_snapshot:
  "snd (read_snapshot cfg w) =
     (case snd (fetch_klines w) of
        Inl e \<Rightarrow> Inl e
      | Inr None \<Rightarrow> Inr None
      | Inr (Some klines) \<Rightarrow>
          (case build_series (to_float w) klines of
             Inl e \<Rightarrow> Inl e
           | Inr df \<Rightarrow>
               (case snd (compute_indicators cfg w df) of
                  Inl e \<Rightarrow> Inl e
                | Inr fr \<Rightarrow>
                    (case snd (latest_values cfg fr) of
                       Inl e \<Rightarrow> Inl e
                     | Inr s \<Rightarrow> Inr (Some s)))))"
  by (simp add: read_snapshot_def snd_then_do split: sum.splits option.splits)

lemma fst_read_snapshot:
  "fst (read_snapshot cfg w) = fst (fetch_klines w) @
     (case snd (fetch_klines w) of
        Inr (Some klines) \<Rightarrow>
          (case build_series (to_float w) klines of
             Inl e \<Rightarrow> []
           | Inr df \<Rightarrow> fst (compute_indicators cfg w df) @
               (case snd (compute_indicators cfg w df) of
                  Inl e \<Rightarrow> []
                | Inr fr \<Rightarrow> fst (latest_values cfg fr)))
      | other \<Rightarrow> [])"
  by (simp add: read_snapshot_def fst_then_do snd_then_do split: sum.splits option.splits)

text \<open>
  C1. A failure while the candles are fetched, while the series is built or while the
  indicators are computed is an exception (of class \<open>Exception\<close>, which is what the
  handler of line 154 catches) of the body of the \<open>try\<close>. Whenever the body raises,
  the cycle prints the exception as its last line and returns; nothing leaves the
  function. The session constructor of line 65 is outside the \<open>try\<close> and is none of
  the three phases. So a run whose sessions can be constructed is still running after any
  number of polls, whatever failed in its cycles, and it has invoked one cycle at
  start-up and one at every poll where the job was due: its trace is the two opening
  lines, the trace of the start-up cycle, and then the whole trace of the cycle of each
  due poll, in order.
\<close>

theorem failed_cycle_is_contained:
  "(get_kline w = Inl e \<longrightarrow> snd (try_body cfg w) = Inl e)
   \<and> (snd (fetch_klines w) = Inr (Some klines) \<and> build_series (to_float w) klines = Inl e
        \<longrightarrow> snd (try_body cfg w) = Inl e)
   \<and> (snd (fetch_klines w) = Inr (Some klines) \<and> build_series (to_float w) klines = Inr df
        \<and> snd (compute_indicators cfg w df) = Inl e
        \<longrightarrow> snd (try_body cfg w) = Inl e)
   \<and> (HTTP_session w = None \<and> snd (try_body cfg w) = Inl e \<longrightarrow>
        snd (execute_trade_logic cfg w) = None
        \<and> fst (execute_trade_logic cfg w)
            = [Print Running_trading_logic, Call_HTTP] @ fst (try_body cfg w)
                @ [Print (Unexpected_error e)])
   \<and> (HTTP_session w0 = None \<and> (\<forall>w'. Some w' \<in> set polls \<longrightarrow> HTTP_session w' = None) \<longrightarrow>
        snd (main cfg w0 polls) = None
        \<and> fst (main cfg w0 polls)
            = [Print Bot_started, Print (Trading_attempted_at ''01:00'')]
                @ fst (execute_trade_logic cfg w0)
                @ concat (map (\<lambda>w'. fst (execute_trade_logic cfg w')) (due_worlds polls))
        \<and> cycles_started (fst (main cfg w0 polls)) = 1 + triggers polls)"
proof (intro conjI impI)
  assume "get_kline w = Inl e"
  then have "snd (fetch_klines w) = Inl e" by (simp add: fetch_klines_def)
  then show "snd (try_body cfg w) = Inl e" by (simp add: snd_try_body snd_read_snapshot)
next
  assume "snd (fetch_klines w) = Inr (Some klines) \<and> build_series (to_float w) klines = Inl e"
  then show "snd (try_body cfg w) = Inl e" by (simp add: snd_try_body snd_read_snapshot)
next
  assume "snd (fetch_klines w) = Inr (Some klines) \<and> build_series (to_float w) klines = Inr df
        \<and> snd (compute_indicators cfg w df) = Inl e"
  then show "snd (try_body cfg w) = Inl e" by (simp add: snd_try_body snd_read_snapshot)
next
  assume a: "HTTP_session w = None \<and> snd (try_body cfg w) = Inl e"
  then show "snd (execute_trade_logic cfg w) = None" by (simp add: snd_execute_trade_logic)
  show "fst (execute_trade_logic cfg w)
            = [Print Running_trading_logic, Call_HTTP] @ fst (try_body cfg w)
                @ [Print (Unexpected_error e)]"
    using a by (simp add: fst_execute_trade_logic)
next
  assume a: "HTTP_session w0 = None \<and> (\<forall>w'. Some w' \<in> set polls \<longrightarrow> HTTP_session w' = None)"
  then have r0: "snd (execute_trade_logic cfg w0) = None" by (simp add: snd_execute_trade_logic)
  have loop: "snd (scheduler_loop cfg polls) = None
     \<and> cycles_started (fst (scheduler_loop cfg polls)) = triggers polls"
    using a by (simp add: scheduler_loop_runs)
  show "snd (main cfg w0 polls) = None"
    using main_runs [OF r0, of polls] loop by simp
  show "fst (main cfg w0 polls)
            = [Print Bot_started, Print (Trading_attempted_at ''01:00'')]
                @ fst (execute_trade_logic cfg w0)
                @ concat (map (\<lambda>w'. fst (execute_trade_logic cfg w')) (due_worlds polls))"
    using main_runs [OF r0, of polls] scheduler_loop_trace [of polls cfg] a by simp
  have "cycles_started (fst (execute_trade_logic cfg w0)) = 1"
    using execute_trade_logic_quiet [of cfg w0] by simp
  then show "cycles_started (fst (main cfg w0 polls)) = 1 + triggers polls"
    using main_runs [OF r0, of polls] loop
    by (simp add: cycles_started_append) (simp add: cycles_started_def)
qed

lemmas world_defs = world_ok_def world_one_bar_def world_empty_def world_fetch_fails_def
  world_bad_close_def world_rsi_fails_def world_of_def answer_def klines_newest_first_def bar_def
  demo_rsi_def demo_ema_def demo_to_float_def is_digit_def millis_def digit_of_def

lemmas cycle_defs = execute_trade_logic_def try_body_def read_snapshot_def then_do_def
  fetch_klines_def build_series_def DataFrame_def widest_def pad_row_def reverse_rows_def
  compute_indicators_def append_column_def latest_values_def iloc_last_def column_def
  evaluate_rules_def act_def strategy_config_def Let_def

theorem failed_cycle_is_contained_witness:
  "get_kline world_fetch_fails = Inl (LibraryError ''connection timed out'')
   \<and> snd (try_body strategy_config world_fetch_fails) = Inl (LibraryError ''connection timed out'')
   \<and> snd (fetch_klines world_bad_close) = Inr (Some [bar ''2'' ''n/a'', bar ''1'' ''10''])
   \<and> build_series (to_float world_bad_close) [bar ''2'' ''n/a'', bar ''1'' ''10'']
       = Inl (ValueError ''could not convert string to float'')
   \<and> snd (try_body strategy_config world_bad_close)
       = Inl (ValueError ''could not convert string to float'')
   \<and> snd (fetch_klines world_rsi_fails) = Inr (Some klines_newest_first)
   \<and> build_series (to_float world_rsi_fails) klines_newest_first
       = Inr [bar_candle ''1'' 10, bar_candle ''2'' 20, bar_candle ''3'' 30]
   \<and> snd (compute_indicators strategy_config world_rsi_fails
             [bar_candle ''1'' 10, bar_candle ''2'' 20, bar_candle ''3'' 30])
       = Inl (LibraryError ''indicator failed'')
   \<and> snd (try_body strategy_config world_rsi_fails) = Inl (LibraryError ''indicator failed'')
   \<and> HTTP_session world_fetch_fails = None
   \<and> execute_trade_logic strategy_config world_fetch_fails
       = ([Print Running_trading_logic, Call_HTTP, Call_get_kline,
           Print (Unexpected_error (LibraryError ''connection timed out''))], None)
   \<and> HTTP_session world_bad_close = None
   \<and> HTTP_session world_rsi_fails = None
   \<and> HTTP_session world_ok = None
   \<and> snd (main strategy_config world_fetch_fails
             [None, Some world_bad_close, None, Some world_rsi_fails, Some world_ok]) = None
   \<and> cycles_started (fst (main strategy_config world_fetch_fails
             [None, Some world_bad_close, None, Some world_rsi_fails, Some world_ok])) = 4
   \<and> fst (main strategy_config world_fetch_fails
             [None, Some world_bad_close, None, Some world_rsi_fails, Some world_ok])
       = [Print Bot_started, Print (Trading_attempted_at ''01:00'')]
           @ fst (execute_trade_logic strategy_config world_fetch_fails)
           @ fst (execute_trade_logic strategy_config world_bad_close)
           @ fst (execute_trade_logic strategy_config world_rsi_fails)
           @ fst (execute_trade_logic strategy_config world_ok)"
proof -
  have k: "get_kline world_fetch_fails = Inl (LibraryError ''connection timed out'')"
    by (simp add: world_defs)
  have h: "HTTP_session world_fetch_fails = None"
    by (simp add: world_defs)
  have f2: "snd (fetch_klines world_bad_close) = Inr (Some [bar ''2'' ''n/a'', bar ''1'' ''10''])"
    by (simp add: fetch_klines_def world_bad_close_def world_of_def answer_def)
  have b2: "build_series (to_float world_bad_close) [bar ''2'' ''n/a'', bar ''1'' ''10'']
       = Inl (ValueError ''could not convert string to float'')"
    by (simp add: world_defs cycle_defs)
  have f3: "snd (fetch_klines world_rsi_fails) = Inr (Some klines_newest_first)"
    by (simp add: fetch_klines_def world_rsi_fails_def world_of_def answer_def)
  have b3: "build_series (to_float world_rsi_fails) klines_newest_first
       = Inr [bar_candle ''1'' 10, bar_candle ''2'' 20, bar_candle ''3'' 30]"
    by (simp add: world_defs cycle_defs bar_candle_def)
  have c3: "snd (compute_indicators strategy_config world_rsi_fails
             [bar_candle ''1'' 10, bar_candle ''2'' 20, bar_candle ''3'' 30])
       = Inl (LibraryError ''indicator failed'')"
    by (simp add: world_defs cycle_defs bar_candle_def)
  have hb: "HTTP_session world_bad_close = None" by (simp add: world_defs)
  have hr: "HTTP_session world_rsi_fails = None" by (simp add: world_defs)
  have ho: "HTTP_session world_ok = None" by (simp add: world_defs)
  have p: "\<forall>w'. Some w' \<in> set [None, Some world_bad_close, None, Some world_rsi_fails, Some world_ok]
          \<longrightarrow> HTTP_session w' = None"
    using hb hr ho by auto
  have t: "triggers [None, Some world_bad_close, None, Some world_rsi_fails, Some world_ok] = 3"
    by (simp add: triggers_def)
  have x: "execute_trade_logic strategy_config world_fetch_fails
       = ([Print Running_trading_logic, Call_HTTP, Call_get_kline,
           Print (Unexpected_error (LibraryError ''connection timed out''))], None)"
    by (simp add: world_defs cycle_defs)
  note fetch = failed_cycle_is_contained
         [of world_fetch_fails "LibraryError ''connection timed out''" strategy_config
             "[]" "[]" world_fetch_fails
             "[None, Some world_bad_close, None, Some world_rsi_fails, Some world_ok]"]
  note build = failed_cycle_is_contained
         [of world_bad_close "ValueError ''could not convert string to float''" strategy_config
             "[bar ''2'' ''n/a'', bar ''1'' ''10'']"]
  note ind = failed_cycle_is_contained
         [of world_rsi_fails "LibraryError ''indicator failed''" strategy_config
             klines_newest_first "[bar_candle ''1'' 10, bar_candle ''2'' 20, bar_candle ''3'' 30]"]
  have t1: "snd (try_body strategy_config world_fetch_fails)
              = Inl (LibraryError ''connection timed out'')"
    using fetch [THEN conjunct1] k by (rule mp)
  have t2: "snd (try_body strategy_config world_bad_close)
              = Inl (ValueError ''could not convert string to float'')"
    using build [THEN conjunct2, THEN conjunct1] conjI [OF f2 b2] by (rule mp)
  have t3: "snd (try_body strategy_config world_rsi_fails) = Inl (LibraryError ''indicator failed'')"
    using ind [THEN conjunct2, THEN conjunct2, THEN conjunct1] conjI [OF f3 conjI [OF b3 c3]]
    by (rule mp)
  have m: "snd (main strategy_config world_fetch_fails
             [None, Some world_bad_close, None, Some world_rsi_fails, Some world_ok]) = None
     \<and> fst (main strategy_config world_fetch_fails
             [None, Some world_bad_close, None, Some world_rsi_fails, Some world_ok])
         = [Print Bot_started, Print (Trading_attempted_at ''01:00'')]
             @ fst (execute_trade_logic strategy_config world_fetch_fails)
             @ concat (map (\<lambda>w'. fst (execute_trade_logic strategy_config w'))
                 (due_worlds [None, Some world_bad_close, None, Some world_rsi_fails,
                    Some world_ok]))
     \<and> cycles_started (fst (main strategy_config world_fetch_fails
             [None, Some world_bad_close, None, Some world_rsi_fails, Some world_ok]))
         = 1 + triggers [None, Some world_bad_close, None, Some world_rsi_fails, Some world_ok]"
    using fetch [THEN conjunct2, THEN conjunct2, THEN conjunct2, THEN conjunct2]
      conjI [OF h p] by (rule mp)
  have m1: "snd (main strategy_config world_fetch_fails
             [None, Some world_bad_close, None, Some world_rsi_fails, Some world_ok]) = None"
    using m by (rule conjunct1)
  have m2: "cycles_started (fst (main strategy_config world_fetch_fails
             [None, Some world_bad_close, None, Some world_rsi_fails, Some world_ok])) = 4"
    using m [THEN conjunct2, THEN conjunct2] by (simp only: t)
  have m3: "fst (main strategy_config world_fetch_fails
             [None, Some world_bad_close, None, Some world_rsi_fails, Some world_ok])
      = [Print Bot_started, Print (Trading_attempted_at ''01:00'')]
          @ fst (execute_trade_logic strategy_config world_fetch_fails)
          @ fst (execute_trade_logic strategy_config world_bad_close)
          @ fst (execute_trade_logic strategy_config world_rsi_fails)
          @ fst (execute_trade_logic strategy_config world_ok)"
    using m [THEN conjunct2, THEN conjunct1] by simp
  show ?thesis
    by (intro conjI) (rule k t1 f2 b2 t2 f3 b3 c3 t3 h x hb hr ho m1 m2 m3)+
qed



section \<open>The empty answer\<close>

text \<open>
  C3, as stated, fails. For the empty list of bars the series is constructed (it is
  empty) and both indicator routines are called on the empty close column; what raises
  is the reading of the last close, and the handler reports it like any other exception.
\<close>

theorem empty_series_counterexample:
  "build_series (to_float world_empty) [] = Inr []
   \<and> execute_trade_logic strategy_config world_empty
       = ([Print Running_trading_logic, Call_HTTP, Call_get_kline, Call_rsi [], Call_ema 50 [],
           Print (Unexpected_error (IndexError ''single positional indexer is out-of-bounds''))],
          None)"
  by (simp add: world_defs cycle_defs)

lemma latest_values_empty:
  "rows fr = [] \<Longrightarrow>
   latest_values cfg fr = ([], Inl (IndexError ''single positional indexer is out-of-bounds''))"
  by (simp add: latest_values_def iloc_last_def)

lemma compute_indicators_rows:
  "snd (compute_indicators cfg w df) = Inr fr \<Longrightarrow> rows fr = df"
  by (auto simp: compute_indicators_def Let_def split: sum.splits if_splits)

lemma compute_indicators_first:
  "\<exists>rest. fst (compute_indicators cfg w df) = Call_rsi (map close df) # rest"
  by (simp add: compute_indicators_def Let_def split: sum.splits)

lemma compute_indicators_raise:
  "snd (compute_indicators cfg w df) = Inl e \<Longrightarrow>
   ta_rsi w (map close df) = Inl e
   \<or> (use_ema_filter cfg \<and> ta_ema w (ema_period cfg) (map close df) = Inl e)"
  by (auto simp: compute_indicators_def Let_def split: sum.splits if_splits)

text \<open>
  C3, amended. For the empty list of bars the construction of the series succeeds with
  an empty series, the RSI routine is called on the empty close column, and the cycle
  then fails: with the \<open>IndexError\<close> of reading the last close, unless an indicator
  routine raised before. The exception is caught and printed as the last line, the
  cycle returns, and no rule is evaluated and no action is printed.
\<close>

theorem empty_series_cycle:
  assumes "HTTP_session w = None" and "get_kline w = Inr resp"
    and "retCode resp = Some 0" and "result_list resp = Some []"
  shows "build_series (to_float w) [] = Inr []
     \<and> Call_rsi [] \<in> set (fst (execute_trade_logic cfg w))
     \<and> snd (execute_trade_logic cfg w) = None
     \<and> decision_events (fst (execute_trade_logic cfg w)) = []
     \<and> (\<exists>e. snd (try_body cfg w) = Inl e
            \<and> last (fst (execute_trade_logic cfg w)) = Print (Unexpected_error e)
            \<and> (e = IndexError ''single positional indexer is out-of-bounds''
                 \<or> ta_rsi w [] = Inl e
                 \<or> (use_ema_filter cfg \<and> ta_ema w (ema_period cfg) [] = Inl e)))"
proof -
  have f: "fetch_klines w = ([Call_get_kline], Inr (Some []))"
    using assms by (simp add: fetch_klines_def)
  have b: "build_series (to_float w) [] = Inr []"
    by (simp add: build_series_def DataFrame_def reverse_rows_def)
  obtain rest where c: "fst (compute_indicators cfg w []) = Call_rsi [] # rest"
    using compute_indicators_first [of cfg w "[]"] by auto
  have rs: "\<exists>e. snd (read_snapshot cfg w) = Inl e
     \<and> (e = IndexError ''single positional indexer is out-of-bounds''
           \<or> ta_rsi w [] = Inl e
           \<or> (use_ema_filter cfg \<and> ta_ema w (ema_period cfg) [] = Inl e))"
  proof (cases "snd (compute_indicators cfg w [])")
    case (Inl e)
    then show ?thesis
      using compute_indicators_raise [of cfg w "[]" e] by (simp add: snd_read_snapshot f b)
  next
    case (Inr fr)
    then have "rows fr = []" by (rule compute_indicators_rows)
    then show ?thesis
      using Inr by (simp add: snd_read_snapshot f b latest_values_empty)
  qed
  then obtain e where e: "snd (read_snapshot cfg w) = Inl e"
    and why: "e = IndexError ''single positional indexer is out-of-bounds''
           \<or> ta_rsi w [] = Inl e
           \<or> (use_ema_filter cfg \<and> ta_ema w (ema_period cfg) [] = Inl e)"
    by blast
  have tb: "snd (try_body cfg w) = Inl e" using e by (simp add: snd_try_body)
  have ftb: "fst (try_body cfg w) = fst (read_snapshot cfg w)" using e by (simp add: fst_try_body)
  have tr: "fst (execute_trade_logic cfg w)
      = [Print Running_trading_logic, Call_HTTP] @ fst (read_snapshot cfg w)
          @ [Print (Unexpected_error e)]"
    using assms(1) tb ftb by (simp add: fst_execute_trade_logic)
  have mem: "Call_rsi [] \<in> set (fst (read_snapshot cfg w))"
    using c by (simp add: fst_read_snapshot f b)
  have dec: "decision_events (fst (read_snapshot cfg w)) = []"
    using snapshot_event_not_start [OF read_snapshot_events, of cfg w] by simp
  have "Call_rsi [] \<in> set (fst (execute_trade_logic cfg w))" using mem by (simp add: tr)
  moreover have "snd (execute_trade_logic cfg w) = None"
    using assms(1) by (rule snd_execute_trade_logic)
  moreover have "decision_events (fst (execute_trade_logic cfg w)) = []"
    using dec by (simp add: tr decision_events_append) (simp add: decision_events_def)
  moreover have "last (fst (execute_trade_logic cfg w)) = Print (Unexpected_error e)"
    by (simp add: tr)
  ultimately show ?thesis using b tb why by blast
qed

theorem empty_series_cycle_witness:
  "HTTP_session world_empty = None \<and> get_kline world_empty = Inr (answer [])
   \<and> retCode (answer []) = Some 0 \<and> result_list (answer []) = Some []
   \<and> Call_rsi [] \<in> set (fst (execute_trade_logic strategy_config world_empty))
   \<and> snd (execute_trade_logic strategy_config world_empty) = None
   \<and> decision_events (fst (execute_trade_logic strategy_config world_empty)) = []
   \<and> last (fst (execute_trade_logic strategy_config world_empty))
       = Print (Unexpected_error (IndexError ''single positional indexer is out-of-bounds''))"
proof -
  have h: "HTTP_session world_empty = None" by (simp add: world_defs)
  have g: "get_kline world_empty = Inr (answer [])" by (simp add: world_defs)
  have c: "retCode (answer []) = Some 0" by (simp add: answer_def)
  have l: "result_list (answer []) = Some []" by (simp add: answer_def)
  have x: "last (fst (execute_trade_logic strategy_config world_empty))
       = Print (Unexpected_error (IndexError ''single positional indexer is out-of-bounds''))"
    by (simp add: world_defs cycle_defs)
  note t = empty_series_cycle [OF h g c l, of strategy_config]
  show ?thesis
    using h g c l x t [THEN conjunct2, THEN conjunct1]
      t [THEN conjunct2, THEN conjunct2, THEN conjunct1]
      t [THEN conjunct2, THEN conjunct2, THEN conjunct2, THEN conjunct1]
    by (intro conjI)
qed



section \<open>The decision of a cycle\<close>

lemma decision_events_cycle:
  assumes "HTTP_session w = None" and "snd (read_snapshot cfg w) = Inr (Some s)"
  shows "decision_events (fst (execute_trade_logic cfg w))
     = fst (evaluate_rules cfg s)
         @ (case snd (evaluate_rules cfg s) of Inr met \<Rightarrow> act met | Inl e \<Rightarrow> [])"
proof -
  have r: "decision_events (fst (read_snapshot cfg w)) = []"
    using snapshot_event_not_start [OF read_snapshot_events, of cfg w] by simp
  have e: "decision_events (fst (evaluate_rules cfg s)) = fst (evaluate_rules cfg s)"
    using decision_not_start [OF evaluate_rules_events, of cfg s] by simp
  have a: "decision_events (act met) = act met" for met
    using decision_not_start [OF act_events, of met] by simp
  have c: "decision_events (x # xs) = (if is_decision x then [x] else []) @ decision_events xs"
    for x xs
    by (simp add: decision_events_def)
  have n: "decision_events [] = []"
    by (simp add: decision_events_def)
  show ?thesis
    using assms(2)
    by (simp add: fst_execute_trade_logic [OF assms(1)] fst_try_body snd_try_body
          decision_events_append r e a c n split: sum.splits)
qed

text \<open>
  C9. The decision is a function of the snapshot and the configuration alone. Two cycles
  that run in any two worlds (other bars, other answers of the libraries) and read the
  same latest values show the same decision: the same lines of unmet rules in the same
  order and the same action, namely what \<open>evaluate_rules\<close> gives for that snapshot.
\<close>

theorem decision_depends_on_snapshot_only:
  assumes "HTTP_session w1 = None" and "HTTP_session w2 = None"
    and "snd (read_snapshot cfg w1) = Inr (Some s)"
    and "snd (read_snapshot cfg w2) = Inr (Some s)"
  shows "decision_events (fst (execute_trade_logic cfg w1))
           = decision_events (fst (execute_trade_logic cfg w2))
     \<and> decision_events (fst (execute_trade_logic cfg w1))
           = fst (evaluate_rules cfg s)
               @ (case snd (evaluate_rules cfg s) of Inr met \<Rightarrow> act met | Inl e \<Rightarrow> [])"
  using decision_events_cycle [OF assms(1) assms(3)] decision_events_cycle [OF assms(2) assms(4)]
  by simp

theorem decision_depends_on_snapshot_only_witness:
  "HTTP_session world_ok = None \<and> HTTP_session world_one_bar = None
   \<and> snd (read_snapshot strategy_config world_ok)
       = Inr (Some \<lparr>latest_close = Fin 30, latest_rsi = Fin 40, latest_ema = Some (Fin 35)\<rparr>)
   \<and> snd (read_snapshot strategy_config world_one_bar)
       = Inr (Some \<lparr>latest_close = Fin 30, latest_rsi = Fin 40, latest_ema = Some (Fin 35)\<rparr>)
   \<and> fst (read_snapshot strategy_config world_ok)
       \<noteq> fst (read_snapshot strategy_config world_one_bar)
   \<and> decision_events (fst (execute_trade_logic strategy_config world_ok))
       = decision_events (fst (execute_trade_logic strategy_config world_one_bar))"
proof -
  have h1: "HTTP_session world_ok = None" by (simp add: world_defs)
  have h2: "HTTP_session world_one_bar = None" by (simp add: world_defs)
  have s1: "snd (read_snapshot strategy_config world_ok)
       = Inr (Some \<lparr>latest_close = Fin 30, latest_rsi = Fin 40, latest_ema = Some (Fin 35)\<rparr>)"
    by (simp add: world_defs cycle_defs)
  have s2: "snd (read_snapshot strategy_config world_one_bar)
       = Inr (Some \<lparr>latest_close = Fin 30, latest_rsi = Fin 40, latest_ema = Some (Fin 35)\<rparr>)"
    by (simp add: world_defs cycle_defs)
  have d: "fst (read_snapshot strategy_config world_ok)
       \<noteq> fst (read_snapshot strategy_config world_one_bar)"
    by (simp add: world_defs cycle_defs)
  show ?thesis
    using h1 h2 s1 s2 d
      decision_depends_on_snapshot_only [OF h1 h2 s1 s2, THEN conjunct1]
    by (intro conjI)
qed

lemma evaluate_rules_True:
  "snd (evaluate_rules cfg s) = Inr True \<Longrightarrow> fst (evaluate_rules cfg s) = []"
  by (auto simp: evaluate_rules_def split: if_splits option.splits)

text \<open>
  C10. No cycle and no run submits an order: \<open>Call_place_order\<close> occurs in no trace.
  When all rules are met, the cycle ends with the line that announces the order and the
  simulation line, and nothing else follows the reading of the latest values.
\<close>

theorem no_order_is_placed:
  "Call_place_order \<notin> set (fst (execute_trade_logic cfg w))
   \<and> Call_place_order \<notin> set (fst (main cfg w0 polls))
   \<and> (HTTP_session w = None \<and> snd (read_snapshot cfg w) = Inr (Some s)
        \<and> snd (evaluate_rules cfg s) = Inr True \<longrightarrow>
        fst (execute_trade_logic cfg w)
          = [Print Running_trading_logic, Call_HTTP] @ fst (read_snapshot cfg w)
              @ [Print All_conditions_met, Print Simulation_order])"
proof (intro conjI impI)
  show "Call_place_order \<notin> set (fst (execute_trade_logic cfg w))"
    using execute_trade_logic_quiet [of cfg w] by simp
  show "Call_place_order \<notin> set (fst (main cfg w0 polls))"
  proof (cases "snd (execute_trade_logic cfg w0)")
    case None
    then show ?thesis
      using main_runs [OF None, of polls] execute_trade_logic_quiet [of cfg w0]
        scheduler_loop_quiet [of cfg polls]
      by simp
  next
    case (Some e)
    then show ?thesis
      using main_stops [OF Some, of polls] execute_trade_logic_quiet [of cfg w0] by simp
  qed
next
  assume a: "HTTP_session w = None \<and> snd (read_snapshot cfg w) = Inr (Some s)
        \<and> snd (evaluate_rules cfg s) = Inr True"
  then have "fst (evaluate_rules cfg s) = []" by (simp add: evaluate_rules_True)
  then show "fst (execute_trade_logic cfg w)
          = [Print Running_trading_logic, Call_HTTP] @ fst (read_snapshot cfg w)
              @ [Print All_conditions_met, Print Simulation_order]"
    using a by (simp add: fst_execute_trade_logic fst_try_body snd_try_body act_def)
qed

theorem no_order_is_placed_witness:
  "HTTP_session world_ok = None
   \<and> snd (read_snapshot strategy_config world_ok)
       = Inr (Some \<lparr>latest_close = Fin 30, latest_rsi = Fin 40, latest_ema = Some (Fin 35)\<rparr>)
   \<and> snd (evaluate_rules strategy_config
             \<lparr>latest_close = Fin 30, latest_rsi = Fin 40, latest_ema = Some (Fin 35)\<rparr>) = Inr True
   \<and> fst (execute_trade_logic strategy_config world_ok)
       = [Print Running_trading_logic, Call_HTTP] @ fst (read_snapshot strategy_config world_ok)
           @ [Print All_conditions_met, Print Simulation_order]
   \<and> Call_place_order \<notin> set (fst (main strategy_config world_ok [Some world_ok, None]))"
proof -
  have h: "HTTP_session world_ok = None" by (simp add: world_defs)
  have s: "snd (read_snapshot strategy_config world_ok)
       = Inr (Some \<lparr>latest_close = Fin 30, latest_rsi = Fin 40, latest_ema = Some (Fin 35)\<rparr>)"
    by (simp add: world_defs cycle_defs)
  have e: "snd (evaluate_rules strategy_config
             \<lparr>latest_close = Fin 30, latest_rsi = Fin 40, latest_ema = Some (Fin 35)\<rparr>) = Inr True"
    by (simp add: evaluate_rules_def strategy_config_def)
  note t = no_order_is_placed
      [of strategy_config world_ok world_ok "[Some world_ok, None]"
          "\<lparr>latest_close = Fin 30, latest_rsi = Fin 40, latest_ema = Some (Fin 35)\<rparr>"]
  have x: "fst (execute_trade_logic strategy_config world_ok)
       = [Print Running_trading_logic, Call_HTTP] @ fst (read_snapshot strategy_config world_ok)
           @ [Print All_conditions_met, Print Simulation_order]"
    using t [THEN conjunct2, THEN conjunct2] conjI [OF h conjI [OF s e]] by (rule mp)
  show ?thesis
    using h s e x t [THEN conjunct2, THEN conjunct1] by (intro conjI)
qed


end
